theory Spec2Isabelle
  imports Main "HOL-Library.Word"
begin

section \<open>The display7 driver (src/display7.c)\<close>

text \<open>
  The driver is a Linux platform driver for one seven-segment display. Its own code is the
  segment table, \<open>display7_setled\<close>, the two sysfs callbacks \<open>digit_show\<close> and
  \<open>digit_store\<close>, and the lifecycle functions \<open>display7_probe\<close> and
  \<open>display7_remove\<close>. Everything else is the kernel, which the driver only calls.

  The kernel is modelled as a test double: every kernel call the driver makes is appended to
  a trace (\<open>calls\<close>), the resources the kernel has handed out are kept in a set
  (\<open>held\<close>), and what each fallible kernel call returns is an input of the model
  (\<open>kernel_env\<close>).
\<close>

subsection \<open>Kernel values\<close>

text \<open>
  A kernel pointer result: \<open>NULL\<close>, a valid object, or \<open>ERR_PTR e\<close>, the pointer that
  encodes the integer \<open>e\<close>.
\<close>

datatype 'a kptr = NULL | Ptr 'a | ERR_PTR int

text \<open>
  \<open>IS_ERR_VALUE\<close> of linux/err.h: the value, read as an unsigned long, is one of the top
  \<open>MAX_ERRNO = 4095\<close> addresses; for a (sign-extended) integer this is the range
  \<open>-4095 .. -1\<close>. The driver applies \<open>IS_ERR\<close> both to pointers and to \<open>int\<close>
  results.
\<close>

definition IS_ERR_VALUE :: "int \<Rightarrow> bool" where
  "IS_ERR_VALUE x = (- 4095 \<le> x \<and> x < 0)"

text \<open>
  \<open>IS_ERR\<close> and \<open>PTR_ERR\<close> on a pointer, together: \<open>Some e\<close> when \<open>IS_ERR\<close> holds,
  with \<open>e\<close> the value of \<open>PTR_ERR\<close>; \<open>None\<close> when \<open>IS_ERR\<close> does not hold.
\<close>

fun IS_ERR :: "'a kptr \<Rightarrow> int option" where
  "IS_ERR (ERR_PTR e) = (if IS_ERR_VALUE e then Some e else None)"
| "IS_ERR NULL = None"
| "IS_ERR (Ptr p) = None"

text \<open>\<open>-ENOMEM\<close>, from errno-base.h.\<close>

definition ENOMEM :: int where
  "ENOMEM = 12"

text \<open>
  \<open>unsigned long\<close>, \<open>unsigned int\<close> and \<open>size_t\<close> on a 64-bit kernel. The segment
  codes fit in seven bits, so nothing below depends on the width of \<open>unsigned long\<close>.
  \<open>ssize_t\<close> has the width of \<open>size_t\<close>: converting a \<open>size_t\<close> to it reads the same
  64 bits as a signed value (\<open>sint\<close>), which is negative from \<open>2 ^ 63\<close> on.
\<close>

type_synonym ulong = "64 word"
type_synonym uint = "32 word"
type_synonym size_t = "64 word"

text \<open>\<open>struct gpio_descs\<close>: only the number of descriptors is observable here.\<close>

record gpio_descs =
  ndescs :: nat

text \<open>The kernel calls of the driver, as a test double records them.\<close>

datatype kcall =
    Devm_kzalloc
  | Gpiod_get_array
  | Alloc_chrdev_region
  | Class_create
  | Device_create
  | Device_create_file
  | Device_remove_file
  | Device_destroy
  | Class_destroy
  | Unregister_chrdev_region
  | Gpiod_put_array
  | Gpiod_set_array_value nat ulong
  | Dev_err string
  | Dev_info string

text \<open>The resources the kernel hands out to the driver and takes back.\<close>

datatype resource = Gpio_array | Chrdev_region | Sys_class | Sys_device | Attr_file

text \<open>
  What the kernel answers to each fallible call. The bulk GPIO write may answer differently
  for each pin count and bitmask.
\<close>

record kernel_env =
  kzalloc_ok :: bool
  gpiod_get_array_res :: "gpio_descs kptr"
  alloc_chrdev_region_res :: int
  alloc_devnum :: nat
  class_create_res :: "unit kptr"
  device_create_res :: "unit kptr"
  device_create_file_res :: int
  gpiod_set_array_value_res :: "nat \<Rightarrow> ulong \<Rightarrow> int"

subsection \<open>Driver state\<close>

text \<open>\<open>struct display7_data_st\<close>.\<close>

record display7_data_st =
  devnum :: nat
  digit :: char
  descs :: "gpio_descs kptr"

text \<open>
  The global \<open>display7_data\<close> is a pointer, \<open>None\<close> while it is \<open>NULL\<close>. The globals
  \<open>display7_class\<close> and \<open>sysfs_display7_device\<close> are kept too; \<open>parent_device\<close> is
  only the target of the log calls and is left out.
\<close>

record driver =
  display7_data :: "display7_data_st option"
  display7_class :: "unit kptr"
  sysfs_display7_device :: "unit kptr"
  calls :: "kcall list"
  held :: "resource set"

definition kcall :: "kcall \<Rightarrow> driver \<Rightarrow> driver" where
  "kcall c s = s\<lparr>calls := calls s @ [c]\<rparr>"

definition claim :: "resource \<Rightarrow> driver \<Rightarrow> driver" where
  "claim r s = s\<lparr>held := insert r (held s)\<rparr>"

definition release :: "resource \<Rightarrow> driver \<Rightarrow> driver" where
  "release r s = s\<lparr>held := held s - {r}\<rparr>"

subsection \<open>Segment table and display7_setled\<close>

definition segment_table :: "ulong list" where
  "segment_table =
     [0x3F, 0x06, 0x5B, 0x4F, 0x66, 0x6D, 0x7D, 0x07,
      0x7F, 0x6F, 0x77, 0x7C, 0x39, 0x5E, 0x79, 0x71]"

text \<open>
  \<open>display7_setled\<close> returns nothing (\<open>void\<close>): its whole effect is on the state and the
  kernel. The result is \<open>None\<close> where the C code dereferences a pointer that is not a valid
  object (\<open>display7_data\<close> or its \<open>descs\<close>).
\<close>

definition display7_setled :: "kernel_env \<Rightarrow> uint \<Rightarrow> driver \<Rightarrow> driver option" where
  "display7_setled env d s =
     (if d > 15 then Some s
      else
        (case display7_data s of
           None \<Rightarrow> None
         | Some dat \<Rightarrow>
             (case descs dat of
                Ptr g \<Rightarrow>
                  (let digit_segments = segment_table ! unat d;
                       result = gpiod_set_array_value_res env (ndescs g) digit_segments;
                       s1 = kcall (Gpiod_set_array_value (ndescs g) digit_segments) s
                   in if IS_ERR_VALUE result
                      then Some (kcall (Dev_err ''Error setting a value in GPIOS: %d'') s1)
                      else Some s1)
              | _ \<Rightarrow> None)))"

subsection \<open>The sysfs callbacks\<close>

text \<open>
  \<open>digit_show\<close> gets the page the kernel allocated for the answer (a map from offsets to
  bytes), stores one byte at offset 0 and returns 0.
\<close>

definition digit_show :: "driver \<Rightarrow> (nat \<Rightarrow> char) \<Rightarrow> (int \<times> (nat \<Rightarrow> char) \<times> driver) option" where
  "digit_show s buf =
     (case display7_data s of
        None \<Rightarrow> None
      | Some dat \<Rightarrow> Some (0, buf(0 := digit dat), s))"

text \<open>
  The payload of a write is the string \<open>buf\<close>, which the kernel terminates with a NUL
  byte: \<open>*buf\<close> is the first character, or NUL for an empty payload.
\<close>

definition deref :: "string \<Rightarrow> char" where
  "deref buf = (case buf of [] \<Rightarrow> CHR 0x00 | c # _ \<Rightarrow> c)"

text \<open>
  The \<open>switch\<close> of \<open>digit_store\<close>: the value of the local \<open>digit\<close> after it and the
  argument it passes to \<open>display7_setled\<close>.
\<close>

definition digit_switch :: "char \<Rightarrow> char \<times> uint" where
  "digit_switch c =
     (if c = CHR ''0'' then (c, 0)
      else if c = CHR ''1'' then (c, 1)
      else if c = CHR ''2'' then (c, 2)
      else if c = CHR ''3'' then (c, 3)
      else if c = CHR ''4'' then (c, 4)
      else if c = CHR ''5'' then (c, 5)
      else if c = CHR ''6'' then (c, 6)
      else if c = CHR ''7'' then (c, 7)
      else if c = CHR ''8'' then (c, 8)
      else if c = CHR ''9'' then (c, 9)
      else if c = CHR ''a'' then (c, 10)
      else if c = CHR ''b'' then (c, 11)
      else if c = CHR ''c'' then (c, 12)
      else if c = CHR ''d'' then (c, 13)
      else if c = CHR ''e'' then (c, 14)
      else if c = CHR ''f'' then (c, 15)
      else (CHR ''8'', 8))"

text \<open>
  \<open>digit_store\<close>: the parameter \<open>size\<close> of the C function is \<open>sz\<close> here, the byte
  count of the payload as the kernel passes it. The function returns it converted to
  \<open>ssize_t\<close>. The recorded digit is assigned after \<open>display7_setled\<close> has returned,
  whatever happened there.
\<close>

definition digit_store :: "kernel_env \<Rightarrow> string \<Rightarrow> size_t \<Rightarrow> driver \<Rightarrow> (int \<times> driver) option" where
  "digit_store env buf sz s =
     (case digit_switch (deref buf) of
        (dg, n) \<Rightarrow>
          (case display7_setled env n s of
             None \<Rightarrow> None
           | Some s1 \<Rightarrow>
               (case display7_data s1 of
                  None \<Rightarrow> None
                | Some dat \<Rightarrow>
                    Some (sint sz, s1\<lparr>display7_data := Some (dat\<lparr>digit := dg\<rparr>)\<rparr>))))"

subsection \<open>Attach and detach\<close>

text \<open>
  The labels at the end of \<open>display7_probe\<close>: each one undoes one step and falls
  through to the next.
\<close>

definition ret_err_class_create :: "driver \<Rightarrow> driver" where
  "ret_err_class_create s = release Chrdev_region (kcall Unregister_chrdev_region s)"

definition ret_err_create_device :: "driver \<Rightarrow> driver" where
  "ret_err_create_device s = ret_err_class_create (release Sys_class (kcall Class_destroy s))"

definition ret_err_create_device_subfile :: "driver \<Rightarrow> driver" where
  "ret_err_create_device_subfile s =
     ret_err_create_device (release Sys_device (kcall Device_destroy s))"

text \<open>
  The steps of \<open>display7_probe\<close>, last first. Each takes the state the steps before it
  have reached and returns the value \<open>display7_probe\<close> returns. A kernel call that
  succeeds hands out its resource.
\<close>

definition probe_device_create_file :: "kernel_env \<Rightarrow> driver \<Rightarrow> int \<times> driver" where
  "probe_device_create_file env s =
     (let result = device_create_file_res env;
          s1 = kcall Device_create_file s;
          s2 = (if result = 0 then claim Attr_file s1 else s1)
      in if IS_ERR_VALUE result
         then (result,
               ret_err_create_device_subfile
                 (kcall (Dev_err ''Failed to create a device sub-file!'') s2))
         else (result, kcall (Dev_info ''Driver initialized.'') s2))"

definition probe_device_create :: "kernel_env \<Rightarrow> driver \<Rightarrow> int \<times> driver" where
  "probe_device_create env s =
     (let dev = device_create_res env;
          s1 = (kcall Device_create s)\<lparr>sysfs_display7_device := dev\<rparr>;
          s2 = (case dev of Ptr _ \<Rightarrow> claim Sys_device s1 | _ \<Rightarrow> s1)
      in case IS_ERR dev of
           Some e \<Rightarrow>
             (e, ret_err_create_device (kcall (Dev_err ''Failed to create a device file!'') s2))
         | None \<Rightarrow> probe_device_create_file env s2)"

definition probe_class_create :: "kernel_env \<Rightarrow> driver \<Rightarrow> int \<times> driver" where
  "probe_class_create env s =
     (let cls = class_create_res env;
          s1 = (kcall Class_create s)\<lparr>display7_class := cls\<rparr>;
          s2 = (case cls of Ptr _ \<Rightarrow> claim Sys_class s1 | _ \<Rightarrow> s1)
      in case IS_ERR cls of
           Some e \<Rightarrow> (e, ret_err_class_create s2)
         | None \<Rightarrow> probe_device_create env s2)"

definition probe_alloc_chrdev_region :: "kernel_env \<Rightarrow> display7_data_st \<Rightarrow> driver \<Rightarrow> int \<times> driver" where
  "probe_alloc_chrdev_region env dat s =
     (let result = alloc_chrdev_region_res env;
          s1 = kcall Alloc_chrdev_region s;
          s2 = (if result = 0
                then claim Chrdev_region
                       (s1\<lparr>display7_data := Some (dat\<lparr>devnum := alloc_devnum env\<rparr>)\<rparr>)
                else s1)
      in if result \<noteq> 0
         then (result, kcall (Dev_err ''Failed to allocate device number'') s2)
         else probe_class_create env s2)"

text \<open>
  \<open>display7_probe\<close>: \<open>devm_kzalloc\<close> returns zeroed memory, so the digit starts as the
  NUL character. The lookup of the device-tree child has no effect on the state.
\<close>

definition display7_probe :: "kernel_env \<Rightarrow> driver \<Rightarrow> int \<times> driver" where
  "display7_probe env s =
     (let s1 = kcall Devm_kzalloc s
      in if \<not> kzalloc_ok env then (- ENOMEM, s1\<lparr>display7_data := None\<rparr>)
         else
           (let got = gpiod_get_array_res env;
                dat = \<lparr>devnum = 0, digit = CHR 0x00, descs = got\<rparr>;
                s2 = (kcall Gpiod_get_array s1)\<lparr>display7_data := Some dat\<rparr>;
                s3 = (case got of Ptr _ \<Rightarrow> claim Gpio_array s2 | _ \<Rightarrow> s2)
            in case IS_ERR got of
                 Some e \<Rightarrow> (e, kcall (Dev_err ''Error getting array og GPIOS: %d'') s3)
               | None \<Rightarrow> probe_alloc_chrdev_region env dat s3))"

text \<open>\<open>display7_remove\<close> reads \<open>display7_data\<close>: \<open>None\<close> where that pointer is NULL.\<close>

definition display7_remove :: "driver \<Rightarrow> (int \<times> driver) option" where
  "display7_remove s =
     (case display7_data s of
        None \<Rightarrow> None
      | Some dat \<Rightarrow>
          (let s1 = release Attr_file (kcall Device_remove_file s);
               s2 = release Sys_device (kcall Device_destroy s1);
               s3 = release Sys_class (kcall Class_destroy s2);
               s4 = release Chrdev_region (kcall Unregister_chrdev_region s3);
               s5 = release Gpio_array (kcall Gpiod_put_array s4)
           in Some (0, kcall (Dev_info ''Driver unloaded!'') s5)))"

text \<open>The state before the driver is loaded: the static pointers are NULL, nothing is held.\<close>

definition unloaded :: driver where
  "unloaded =
     \<lparr>display7_data = None, display7_class = NULL, sysfs_display7_device = NULL,
      calls = [], held = {}\<rparr>"

subsection \<open>Observing the kernel double\<close>

text \<open>The bitmasks the driver has handed to the bulk GPIO write, oldest first.\<close>

fun masks :: "kcall list \<Rightarrow> ulong list" where
  "masks [] = []"
| "masks (Gpiod_set_array_value n m # cs) = m # masks cs"
| "masks (c # cs) = masks cs"

text \<open>The messages the driver has logged with \<open>dev_err\<close>, oldest first.\<close>

fun reported :: "kcall list \<Rightarrow> string list" where
  "reported [] = []"
| "reported (Dev_err m # cs) = m # reported cs"
| "reported (c # cs) = reported cs"

text \<open>The kernel calls that give a resource back.\<close>

fun is_release :: "kcall \<Rightarrow> bool" where
  "is_release Device_remove_file = True"
| "is_release Device_destroy = True"
| "is_release Class_destroy = True"
| "is_release Unregister_chrdev_region = True"
| "is_release Gpiod_put_array = True"
| "is_release c = False"

text \<open>In the trace \<open>tr\<close>, the call \<open>a\<close> happens before the first call \<open>b\<close>.\<close>

definition before :: "kcall \<Rightarrow> kcall \<Rightarrow> kcall list \<Rightarrow> bool" where
  "before a b tr = (b \<in> set tr \<and> a \<in> set (takeWhile (\<lambda>x. x \<noteq> b) tr))"

text \<open>
  What a reader of the attribute file receives (fs/sysfs/file.c): the value a show callback
  returns is the number of bytes it has put into the page, and the reader gets exactly those
  bytes; a negative value is an error code.
\<close>

definition sysfs_read :: "driver \<Rightarrow> (nat \<Rightarrow> char) \<Rightarrow> (int + string) option" where
  "sysfs_read s page =
     (case digit_show s page of
        None \<Rightarrow> None
      | Some (n, page', s') \<Rightarrow> Some (if n < 0 then Inl n else Inr (map page' [0..<nat n])))"

subsection \<open>Scenarios\<close>

text \<open>A kernel where every call succeeds: eight pins, device number 240.\<close>

definition env_ok :: kernel_env where
  "env_ok =
     \<lparr>kzalloc_ok = True, gpiod_get_array_res = Ptr \<lparr>ndescs = 8\<rparr>,
      alloc_chrdev_region_res = 0, alloc_devnum = 240, class_create_res = Ptr (),
      device_create_res = Ptr (), device_create_file_res = 0,
      gpiod_set_array_value_res = (\<lambda>n m. 0)\<rparr>"

text \<open>The same kernel with a bulk GPIO write that fails with \<open>-EIO\<close>.\<close>

definition env_fault :: kernel_env where
  "env_fault = env_ok\<lparr>gpiod_set_array_value_res := (\<lambda>n m. - 5)\<rparr>"

text \<open>The same kernel where creating the attribute file fails with \<open>-ENOMEM\<close>.\<close>

definition env_nofile :: kernel_env where
  "env_nofile = env_ok\<lparr>device_create_file_res := - 12\<rparr>"

text \<open>The driver after a successful attach.\<close>

definition attached :: driver where
  "attached =
     \<lparr>display7_data = Some \<lparr>devnum = 240, digit = CHR 0x00, descs = Ptr \<lparr>ndescs = 8\<rparr>\<rparr>,
      display7_class = Ptr (), sysfs_display7_device = Ptr (),
      calls = [Devm_kzalloc, Gpiod_get_array, Alloc_chrdev_region, Class_create,
               Device_create, Device_create_file, Dev_info ''Driver initialized.''],
      held = {Attr_file, Sys_device, Sys_class, Chrdev_region, Gpio_array}\<rparr>"

section \<open>Properties\<close>

subsection \<open>Shared lemmas\<close>

lemma masks_append: "masks (xs @ ys) = masks xs @ masks ys"
  by (induction xs rule: masks.induct) simp_all

lemma reported_append: "reported (xs @ ys) = reported xs @ reported ys"
  by (induction xs rule: reported.induct) simp_all

lemma probe_env_ok: "display7_probe env_ok unloaded = (0, attached)"
  by (simp add: display7_probe_def probe_alloc_chrdev_region_def probe_class_create_def
      probe_device_create_def probe_device_create_file_def env_ok_def unloaded_def
      attached_def kcall_def claim_def IS_ERR_VALUE_def Let_def insert_commute)

lemma digit_switch_le: "snd (digit_switch c) \<le> 15"
  by (simp add: digit_switch_def)

text \<open>On an attached instance a digit in range is always handed to the bulk GPIO write.\<close>

lemma setled_attached:
  assumes "display7_data s = Some dat" and "descs dat = Ptr g" and "d \<le> 15"
  shows "display7_setled env d s =
           Some (s\<lparr>calls := calls s @
                   Gpiod_set_array_value (ndescs g) (segment_table ! unat d) #
                   (if IS_ERR_VALUE
                         (gpiod_set_array_value_res env (ndescs g) (segment_table ! unat d))
                    then [Dev_err ''Error setting a value in GPIOS: %d''] else [])\<rparr>)"
  using assms by (simp add: display7_setled_def kcall_def Let_def not_less [symmetric])

text \<open>The whole effect of a write on an attached instance.\<close>

lemma digit_store_attached:
  assumes "display7_data s = Some dat" and "descs dat = Ptr g"
  shows "digit_store env buf sz s =
           Some (sint sz,
             s\<lparr>calls := calls s @
                  Gpiod_set_array_value (ndescs g)
                    (segment_table ! unat (snd (digit_switch (deref buf)))) #
                  (if IS_ERR_VALUE (gpiod_set_array_value_res env (ndescs g)
                         (segment_table ! unat (snd (digit_switch (deref buf)))))
                   then [Dev_err ''Error setting a value in GPIOS: %d''] else []),
                display7_data := Some (dat\<lparr>digit := fst (digit_switch (deref buf))\<rparr>)\<rparr>)"
proof -
  obtain dg n where sw: "digit_switch (deref buf) = (dg, n)"
    by (cases "digit_switch (deref buf)")
  have "n \<le> 15"
    using digit_switch_le [of "deref buf"] by (simp add: sw)
  from setled_attached [OF assms this, of env] show ?thesis
    using assms by (simp add: digit_store_def sw)
qed

text \<open>A byte count below \<open>2 ^ 63\<close> keeps its value as a \<open>size_t\<close> returned as \<open>ssize_t\<close>.\<close>

lemma ssize_of_length: "n < 2 ^ 63 \<Longrightarrow> sint (of_nat n :: size_t) = int n"
  by (simp add: signed_of_nat signed_take_bit_int_eq_self)

lemma attached_data:
  "display7_data attached =
     Some \<lparr>devnum = 240, digit = CHR 0x00, descs = Ptr \<lparr>ndescs = 8\<rparr>\<rparr>"
  by (simp add: attached_def)

text \<open>
  The value \<open>digit_store\<close> returns is the byte count read as an \<open>ssize_t\<close>: a page-sized
  count keeps its value, a count from \<open>2 ^ 63\<close> on comes back negative.
\<close>

lemma digit_store_ssize_t:
  "map_option fst (digit_store env_ok ''1'' (2 ^ 63) attached) = Some (- (2 ^ 63)) \<and>
   map_option fst (digit_store env_ok ''1'' (- 1) attached) = Some (- 1) \<and>
   map_option fst (digit_store env_ok ''1'' 4096 attached) = Some 4096"
proof -
  have pins: "descs \<lparr>devnum = 240, digit = CHR 0x00, descs = Ptr \<lparr>ndescs = 8\<rparr>\<rparr> =
      Ptr \<lparr>ndescs = 8\<rparr>"
    by simp
  have big: "sint (2 ^ 63 :: size_t) = - (2 ^ 63)"
    by (simp add: sint_uint)
  show ?thesis
    by (simp add: digit_store_attached [OF attached_data pins] big)
qed

lemma switch_fallback: "c \<notin> set ''0123456789abcdef'' \<Longrightarrow> digit_switch c = (CHR ''8'', 8)"
  by (simp add: digit_switch_def)

lemma switch_alphabet: "c \<in> set ''0123456789abcdef'' \<Longrightarrow> fst (digit_switch c) = c"
  by (auto simp add: digit_switch_def)

lemma switch_upper:
  assumes "c \<in> set ''ABCDEF''"
  shows "digit_switch c = (CHR ''8'', 8)"
proof -
  from assms have "c = CHR ''A'' \<or> c = CHR ''B'' \<or> c = CHR ''C'' \<or>
      c = CHR ''D'' \<or> c = CHR ''E'' \<or> c = CHR ''F''"
    by simp
  then show ?thesis
    by (elim disjE) (simp_all add: digit_switch_def)
qed

subsection \<open>A failing bulk GPIO write\<close>

text \<open>
  Claim C1, as stated, fails. On the attached instance, \<open>'3'\<close> is written with a working
  kernel and then \<open>'5'\<close> with a bulk GPIO write that fails: the second write still
  returns 1, the payload length, and the recorded digit has become \<open>'5'\<close>. The only
  trace of the failure is the \<open>dev_err\<close> message.
\<close>

theorem store_fault_counterexample:
  "\<exists>s1 s2. digit_store env_ok ''3'' 1 attached = Some (1, s1) \<and>
      map_option digit (display7_data s1) = Some CHR ''3'' \<and>
      IS_ERR_VALUE (gpiod_set_array_value_res env_fault 8 0x6D) \<and>
      digit_store env_fault ''5'' 1 s1 = Some (1, s2) \<and>
      masks (calls s2) = [0x4F, 0x6D] \<and>
      reported (calls s2) = [''Error setting a value in GPIOS: %d''] \<and>
      map_option digit (display7_data s2) = Some CHR ''5''"
  by (simp add: digit_store_def display7_setled_def digit_switch_def deref_def attached_def
      env_ok_def env_fault_def kcall_def segment_table_def IS_ERR_VALUE_def Let_def)

text \<open>
  Claim C1, amended. \<open>display7_setled\<close> returns nothing, so \<open>digit_store\<close> cannot learn
  of a failed bulk GPIO write: the failure is logged with \<open>dev_err\<close>, the write returns
  the byte count it was given (as \<open>ssize_t\<close>), and the recorded digit is updated to the
  written character (\<open>'8'\<close> for a character outside the alphabet).
\<close>

theorem store_fault_not_propagated:
  assumes "display7_data s = Some dat" and "descs dat = Ptr g"
    and "IS_ERR_VALUE (gpiod_set_array_value_res env (ndescs g)
           (segment_table ! unat (snd (digit_switch c))))"
  shows "\<exists>s'. digit_store env (c # rest) sz s = Some (sint sz, s') \<and>
              map_option digit (display7_data s') = Some (fst (digit_switch c)) \<and>
              reported (calls s') =
                reported (calls s) @ [''Error setting a value in GPIOS: %d'']"
  using assms(3)
  by (simp add: digit_store_attached [OF assms(1,2)] deref_def reported_append)

theorem store_fault_not_propagated_witness:
  "\<exists>s'. digit_store env_fault ''5'' 1 attached = Some (1, s') \<and>
        map_option digit (display7_data s') = Some CHR ''5'' \<and>
        reported (calls s') = [''Error setting a value in GPIOS: %d'']"
  using store_fault_not_propagated
    [where s = attached and g = "\<lparr>ndescs = 8\<rparr>" and env = env_fault and c = "CHR ''5''"
       and sz = 1 and rest = "[]"]
  by (simp add: attached_def env_fault_def env_ok_def IS_ERR_VALUE_def digit_switch_def)

subsection \<open>The segment table\<close>

text \<open>
  Claim C2. The table has exactly 16 entries. On an attached instance, for every digit
  \<open>d\<close> in 0..15 \<open>display7_setled\<close> hands to the bulk GPIO write the \<open>d\<close>-th of the
  constants 0x3F, 0x06, 0x5B, 0x4F, 0x66, 0x6D, 0x7D, 0x07, 0x7F, 0x6F, 0x77, 0x7C, 0x39,
  0x5E, 0x79, 0x71; for every digit above 15 it returns before the table is read and
  changes nothing.
\<close>

theorem segment_table_lookup:
  assumes "display7_data s = Some dat" and "descs dat = Ptr g"
  shows "length segment_table = 16 \<and>
    (\<forall>d. d \<le> 15 \<longrightarrow>
       (\<exists>s'. display7_setled env d s = Some s' \<and>
          masks (calls s') = masks (calls s) @
            [[0x3F, 0x06, 0x5B, 0x4F, 0x66, 0x6D, 0x7D, 0x07,
              0x7F, 0x6F, 0x77, 0x7C, 0x39, 0x5E, 0x79, 0x71] ! unat d])) \<and>
    (\<forall>d. 15 < d \<longrightarrow> display7_setled env d s = Some s)"
proof (intro conjI allI impI)
  show "length segment_table = 16"
    by (simp add: segment_table_def)
next
  fix d :: uint
  assume "d \<le> 15"
  from setled_attached [OF assms this, of env]
  show "\<exists>s'. display7_setled env d s = Some s' \<and>
          masks (calls s') = masks (calls s) @
            [[0x3F, 0x06, 0x5B, 0x4F, 0x66, 0x6D, 0x7D, 0x07,
              0x7F, 0x6F, 0x77, 0x7C, 0x39, 0x5E, 0x79, 0x71] ! unat d]"
    by (simp add: masks_append segment_table_def)
next
  fix d :: uint
  assume "15 < d"
  then show "display7_setled env d s = Some s"
    by (simp add: display7_setled_def)
qed

theorem segment_table_lookup_witness:
  "length segment_table = 16 \<and>
   (\<exists>s'. display7_setled env_ok 10 attached = Some s' \<and> masks (calls s') = [0x77]) \<and>
   display7_setled env_ok 16 attached = Some attached"
proof -
  from segment_table_lookup [OF attached_data, of "\<lparr>ndescs = 8\<rparr>" env_ok]
  have len: "length segment_table = 16"
    and low: "\<And>d. d \<le> 15 \<Longrightarrow> \<exists>s'. display7_setled env_ok d attached = Some s' \<and>
          masks (calls s') = masks (calls attached) @
            [[0x3F, 0x06, 0x5B, 0x4F, 0x66, 0x6D, 0x7D, 0x07,
              0x7F, 0x6F, 0x77, 0x7C, 0x39, 0x5E, 0x79, 0x71] ! unat d]"
    and high: "\<And>d. 15 < d \<Longrightarrow> display7_setled env_ok d attached = Some attached"
    by simp_all
  from len low [of 10] high [of 16] show ?thesis
    by (simp add: attached_def)
qed

subsection \<open>A digit out of range\<close>

text \<open>
  Claim C3, as stated, fails in its first part. \<open>display7_setled\<close> is a \<open>void\<close>
  function, so the only way it could report anything is the kernel log. Called with 16 on the
  attached instance it returns with the state exactly as it was: no error value, and no
  \<open>dev_err\<close> message either.
\<close>

theorem setled_out_of_range_counterexample:
  "display7_setled env_ok 16 attached = Some attached \<and> reported (calls attached) = []"
  by (simp add: display7_setled_def attached_def)

text \<open>
  Claim C3, amended. For every digit above 15, \<open>display7_setled\<close> returns silently and
  leaves the whole state as it was: no bulk GPIO write is made, the recorded digit keeps its
  previous value, and nothing is logged or returned to the caller.
\<close>

theorem setled_out_of_range_silent:
  "15 < d \<Longrightarrow> display7_setled env d s = Some s"
  by (simp add: display7_setled_def)

theorem setled_out_of_range_silent_witness:
  "(15 :: uint) < 4294967295 \<and> display7_setled env_fault 4294967295 attached = Some attached"
  using setled_out_of_range_silent [of 4294967295 env_fault attached] by simp

subsection \<open>Round trip\<close>

text \<open>
  Claim C4. After a write of a character \<open>c\<close> of the alphabet on an attached instance,
  \<open>digit_show\<close> does store \<open>c\<close> at offset 0 of the page, but the value it returns, the
  number of bytes it claims to have produced, is 0. A reader of the attribute file therefore
  receives the empty string, not \<open>c\<close>.
\<close>

theorem roundtrip_show_returns_zero:
  assumes "display7_data s = Some dat" and "descs dat = Ptr g"
    and "c \<in> set ''0123456789abcdef''"
  shows "\<exists>s'. digit_store env (c # rest) sz s = Some (sint sz, s') \<and>
              digit_show s' page = Some (0, page(0 := c), s') \<and>
              sysfs_read s' page = Some (Inr [])"
  using switch_alphabet [OF assms(3)]
  by (simp add: digit_store_attached [OF assms(1,2)] deref_def digit_show_def sysfs_read_def)

theorem roundtrip_show_returns_zero_witness:
  "\<exists>s'. digit_store env_ok ''5'' 1 attached = Some (1, s') \<and>
        digit_show s' (\<lambda>i. CHR 0x00) = Some (0, (\<lambda>i. CHR 0x00)(0 := CHR ''5''), s') \<and>
        sysfs_read s' (\<lambda>i. CHR 0x00) = Some (Inr [])"
  using roundtrip_show_returns_zero
    [where s = attached and g = "\<lparr>ndescs = 8\<rparr>" and env = env_ok and c = "CHR ''5''"
       and sz = 1 and rest = "[]" and page = "\<lambda>i. CHR 0x00"]
  by (simp add: attached_def)

subsection \<open>Writes of a character outside the alphabet\<close>

text \<open>
  Claim C5. On an attached instance with pins \<open>g\<close>, a write of a payload \<open>c # rest\<close>
  (of a length below \<open>2 ^ 63\<close>, passed as its byte count) whose first character is not one
  of \<open>0-9\<close>, \<open>a-f\<close> returns the length of the payload (never an error code), records
  the digit \<open>'8'\<close>, and makes exactly one bulk GPIO write, of the bitmask \<open>0x7F\<close> over all
  \<open>ndescs g\<close> pins. Nothing else changes but a log line when that write fails; the value
  returned and the digit recorded are the same whatever the kernel answers to it.
\<close>

theorem store_fallback:
  assumes "display7_data s = Some dat" and "descs dat = Ptr g"
    and "c \<notin> set ''0123456789abcdef''"
    and "length (c # rest) < 2 ^ 63"
  shows "digit_store env (c # rest) (of_nat (length (c # rest))) s =
           Some (int (length (c # rest)),
             s\<lparr>calls := calls s @
                  Gpiod_set_array_value (ndescs g) 0x7F #
                  (if IS_ERR_VALUE (gpiod_set_array_value_res env (ndescs g) 0x7F)
                   then [Dev_err ''Error setting a value in GPIOS: %d''] else []),
                display7_data := Some (dat\<lparr>digit := CHR ''8''\<rparr>)\<rparr>)"
proof -
  have tbl: "segment_table ! unat (8 :: uint) = 0x7F"
    by (simp add: segment_table_def)
  have sw: "digit_switch (deref (c # rest)) = (CHR ''8'', 8)"
    using assms(3) by (simp add: deref_def switch_fallback)
  show ?thesis
    unfolding digit_store_attached [OF assms(1,2)] sw fst_conv snd_conv tbl
      ssize_of_length [OF assms(4)]
    by (rule refl)
qed

theorem store_fallback_witness:
  "digit_store env_fault ''zebra'' 5 attached =
     Some (5, attached\<lparr>calls := calls attached @
                [Gpiod_set_array_value 8 0x7F, Dev_err ''Error setting a value in GPIOS: %d''],
              display7_data :=
                Some \<lparr>devnum = 240, digit = CHR ''8'', descs = Ptr \<lparr>ndescs = 8\<rparr>\<rparr>\<rparr>)"
proof -
  have pins: "descs \<lparr>devnum = 240, digit = CHR 0x00, descs = Ptr \<lparr>ndescs = 8\<rparr>\<rparr> =
      Ptr \<lparr>ndescs = 8\<rparr>"
    by simp
  have out: "CHR ''z'' \<notin> set ''0123456789abcdef''"
    by simp
  have len: "length ''zebra'' < 2 ^ 63"
    by simp
  from store_fallback [OF attached_data pins out len, of env_fault] show ?thesis
    by (simp add: env_fault_def env_ok_def IS_ERR_VALUE_def)
qed

subsection \<open>Only the first character counts\<close>

text \<open>
  Claim C6. On an attached instance, a write of a payload \<open>c # rest\<close> of length \<open>n\<close>, with
  \<open>1 \<le> n < 2 ^ 63\<close> and \<open>n\<close> passed as the byte count, returns \<open>n\<close>, and the state it
  leaves is the same for every \<open>rest\<close>: the digit recorded is the one the switch gives for
  \<open>c\<close>, and the one bulk GPIO write made is that of the bitmask of the digit value the switch
  gives for \<open>c\<close>, over all pins.
\<close>

theorem store_first_char_only:
  assumes "display7_data s = Some dat" and "descs dat = Ptr g"
  shows "\<exists>s'. (\<forall>rest. length (c # rest) < 2 ^ 63 \<longrightarrow>
                  digit_store env (c # rest) (of_nat (length (c # rest))) s =
                    Some (int (length (c # rest)), s')) \<and>
              s' = s\<lparr>calls := calls s @
                        Gpiod_set_array_value (ndescs g)
                          (segment_table ! unat (snd (digit_switch c))) #
                        (if IS_ERR_VALUE (gpiod_set_array_value_res env (ndescs g)
                               (segment_table ! unat (snd (digit_switch c))))
                         then [Dev_err ''Error setting a value in GPIOS: %d''] else []),
                      display7_data := Some (dat\<lparr>digit := fst (digit_switch c)\<rparr>)\<rparr>"
proof (intro exI conjI allI impI)
  fix rest :: string
  assume len: "length (c # rest) < 2 ^ 63"
  have d: "deref (c # rest) = c"
    by (simp add: deref_def)
  show "digit_store env (c # rest) (of_nat (length (c # rest))) s =
          Some (int (length (c # rest)),
            s\<lparr>calls := calls s @
                 Gpiod_set_array_value (ndescs g)
                   (segment_table ! unat (snd (digit_switch c))) #
                 (if IS_ERR_VALUE (gpiod_set_array_value_res env (ndescs g)
                        (segment_table ! unat (snd (digit_switch c))))
                  then [Dev_err ''Error setting a value in GPIOS: %d''] else []),
               display7_data := Some (dat\<lparr>digit := fst (digit_switch c)\<rparr>)\<rparr>)"
    unfolding digit_store_attached [OF assms] d ssize_of_length [OF len]
    by (rule refl)
qed (rule refl)

theorem store_first_char_only_witness:
  "\<exists>s'. digit_store env_ok ''1f'' 2 attached = Some (2, s') \<and>
        digit_store env_ok ''1'' 1 attached = Some (1, s') \<and>
        s' = attached\<lparr>calls := calls attached @ [Gpiod_set_array_value 8 0x06],
                 display7_data :=
                   Some \<lparr>devnum = 240, digit = CHR ''1'', descs = Ptr \<lparr>ndescs = 8\<rparr>\<rparr>\<rparr>"
proof -
  have pins: "descs \<lparr>devnum = 240, digit = CHR 0x00, descs = Ptr \<lparr>ndescs = 8\<rparr>\<rparr> =
      Ptr \<lparr>ndescs = 8\<rparr>"
    by simp
  from store_first_char_only [OF attached_data pins, of "CHR ''1''" env_ok]
  obtain s' where
    every: "\<And>rest. length (CHR ''1'' # rest) < 2 ^ 63 \<Longrightarrow>
            digit_store env_ok (CHR ''1'' # rest) (of_nat (length (CHR ''1'' # rest))) attached =
              Some (int (length (CHR ''1'' # rest)), s')"
    and st: "s' = attached\<lparr>calls := calls attached @
                        Gpiod_set_array_value 8
                          (segment_table ! unat (snd (digit_switch CHR ''1''))) #
                        (if IS_ERR_VALUE (gpiod_set_array_value_res env_ok 8
                               (segment_table ! unat (snd (digit_switch CHR ''1''))))
                         then [Dev_err ''Error setting a value in GPIOS: %d''] else []),
                      display7_data :=
                        Some (\<lparr>devnum = 240, digit = CHR 0x00, descs = Ptr \<lparr>ndescs = 8\<rparr>\<rparr>
                                \<lparr>digit := fst (digit_switch CHR ''1'')\<rparr>)\<rparr>"
    by auto
  have two: "digit_store env_ok ''1f'' 2 attached = Some (2, s')"
    using every [of "''f''"] by simp
  have one: "digit_store env_ok ''1'' 1 attached = Some (1, s')"
    using every [of "[]"] by simp
  from two one st show ?thesis
    by (simp add: digit_switch_def segment_table_def env_ok_def IS_ERR_VALUE_def)
qed

subsection \<open>Uppercase hex letters\<close>

text \<open>
  Claim C10. The switch knows the lowercase letters only. On an attached instance with pins
  \<open>g\<close>, a write whose first character is one of \<open>A\<close> .. \<open>F\<close> takes the default branch:
  it records \<open>'8'\<close> and makes exactly one bulk GPIO write, of the bitmask \<open>0x7F\<close> over all
  \<open>ndescs g\<close> pins, where the lowercase letters \<open>a\<close> .. \<open>f\<close> give the digit values
  10 .. 15.
\<close>

theorem store_uppercase_fallback:
  assumes "display7_data s = Some dat" and "descs dat = Ptr g"
    and "c \<in> set ''ABCDEF''"
  shows "digit_store env (c # rest) sz s =
           Some (sint sz,
             s\<lparr>calls := calls s @
                  Gpiod_set_array_value (ndescs g) 0x7F #
                  (if IS_ERR_VALUE (gpiod_set_array_value_res env (ndescs g) 0x7F)
                   then [Dev_err ''Error setting a value in GPIOS: %d''] else []),
                display7_data := Some (dat\<lparr>digit := CHR ''8''\<rparr>)\<rparr>) \<and>
         digit_switch c = (CHR ''8'', 8) \<and>
         map digit_switch ''abcdef'' =
           [(CHR ''a'', 10), (CHR ''b'', 11), (CHR ''c'', 12),
            (CHR ''d'', 13), (CHR ''e'', 14), (CHR ''f'', 15)]"
proof (intro conjI)
  have tbl: "segment_table ! unat (8 :: uint) = 0x7F"
    by (simp add: segment_table_def)
  have sw: "digit_switch (deref (c # rest)) = (CHR ''8'', 8)"
    using switch_upper [OF assms(3)] by (simp add: deref_def)
  show "digit_store env (c # rest) sz s =
           Some (sint sz,
             s\<lparr>calls := calls s @
                  Gpiod_set_array_value (ndescs g) 0x7F #
                  (if IS_ERR_VALUE (gpiod_set_array_value_res env (ndescs g) 0x7F)
                   then [Dev_err ''Error setting a value in GPIOS: %d''] else []),
                display7_data := Some (dat\<lparr>digit := CHR ''8''\<rparr>)\<rparr>)"
    unfolding digit_store_attached [OF assms(1,2)] sw fst_conv snd_conv tbl
    by (rule refl)
  show "digit_switch c = (CHR ''8'', 8)"
    by (rule switch_upper [OF assms(3)])
  show "map digit_switch ''abcdef'' =
           [(CHR ''a'', 10), (CHR ''b'', 11), (CHR ''c'', 12),
            (CHR ''d'', 13), (CHR ''e'', 14), (CHR ''f'', 15)]"
    by (simp add: digit_switch_def)
qed

theorem store_uppercase_fallback_witness:
  "digit_store env_ok ''A'' 1 attached =
     Some (1, attached\<lparr>calls := calls attached @ [Gpiod_set_array_value 8 0x7F],
              display7_data :=
                Some \<lparr>devnum = 240, digit = CHR ''8'', descs = Ptr \<lparr>ndescs = 8\<rparr>\<rparr>\<rparr>) \<and>
   digit_switch CHR ''A'' = (CHR ''8'', 8) \<and>
   digit_switch CHR ''a'' = (CHR ''a'', 10)"
proof -
  have pins: "descs \<lparr>devnum = 240, digit = CHR 0x00, descs = Ptr \<lparr>ndescs = 8\<rparr>\<rparr> =
      Ptr \<lparr>ndescs = 8\<rparr>"
    by simp
  have up: "CHR ''A'' \<in> set ''ABCDEF''"
    by simp
  from store_uppercase_fallback [OF attached_data pins up, of env_ok "[]" 1] show ?thesis
    by (simp add: env_ok_def IS_ERR_VALUE_def)
qed

subsection \<open>Reading the digit\<close>

lemma ret_err_class_create_data:
  "display7_data (ret_err_class_create s) = display7_data s"
  by (simp add: ret_err_class_create_def release_def kcall_def)

lemma ret_err_create_device_data:
  "display7_data (ret_err_create_device s) = display7_data s"
  by (simp add: ret_err_create_device_def ret_err_class_create_data release_def kcall_def)

lemma ret_err_create_device_subfile_data:
  "display7_data (ret_err_create_device_subfile s) = display7_data s"
  by (simp add: ret_err_create_device_subfile_def ret_err_create_device_data release_def
      kcall_def)

lemma probe_device_create_file_data:
  "display7_data (snd (probe_device_create_file env s)) = display7_data s"
  by (simp add: probe_device_create_file_def ret_err_create_device_subfile_data kcall_def
      claim_def Let_def)

lemma probe_device_create_data:
  "display7_data (snd (probe_device_create env s)) = display7_data s"
  by (simp add: probe_device_create_def probe_device_create_file_data
      ret_err_create_device_data kcall_def claim_def Let_def
      split: option.splits kptr.splits)

lemma probe_class_create_data:
  "display7_data (snd (probe_class_create env s)) = display7_data s"
  by (simp add: probe_class_create_def probe_device_create_data
      ret_err_class_create_data kcall_def claim_def Let_def
      split: option.splits kptr.splits)

lemma probe_alloc_chrdev_region_digit:
  assumes "display7_data s = Some dat"
  shows "\<exists>dat'. display7_data (snd (probe_alloc_chrdev_region env dat s)) = Some dat' \<and>
               digit dat' = digit dat"
  using assms
  by (simp add: probe_alloc_chrdev_region_def probe_class_create_data kcall_def claim_def
      Let_def)

lemma probe_zero_digit:
  assumes "display7_probe env s = (0, s')"
  shows "\<exists>dat. display7_data s' = Some dat \<and> digit dat = CHR 0x00"
proof -
  have ok: "kzalloc_ok env"
    using assms by (cases "kzalloc_ok env") (simp_all add: display7_probe_def ENOMEM_def)
  let ?dat = "\<lparr>devnum = 0, digit = CHR 0x00, descs = gpiod_get_array_res env\<rparr>"
  let ?s2 = "(kcall Gpiod_get_array (kcall Devm_kzalloc s))\<lparr>display7_data := Some ?dat\<rparr>"
  let ?s3 = "case gpiod_get_array_res env of Ptr x \<Rightarrow> claim Gpio_array ?s2 | _ \<Rightarrow> ?s2"
  have d3: "display7_data ?s3 = Some ?dat"
    by (simp add: claim_def split: kptr.splits)
  show ?thesis
  proof (cases "IS_ERR (gpiod_get_array_res env)")
    case (Some e)
    then have "s' = kcall (Dev_err ''Error getting array og GPIOS: %d'') ?s3"
      using assms ok by (simp add: display7_probe_def Let_def)
    with d3 show ?thesis
      by (simp add: kcall_def)
  next
    case None
    then have "s' = snd (probe_alloc_chrdev_region env ?dat ?s3)"
      using assms ok by (simp add: display7_probe_def Let_def)
    with probe_alloc_chrdev_region_digit [OF d3, of env] show ?thesis
      by simp
  qed
qed

lemma digit_store_records:
  assumes "digit_store env buf sz s = Some (r, s')"
  shows "\<exists>dat. display7_data s' = Some dat \<and> digit dat = fst (digit_switch (deref buf))"
  using assms
  by (auto simp add: digit_store_def split: prod.splits option.splits)

text \<open>
  Claim C7, as stated, fails: what a read yields is not the last digit that was shown
  successfully. On the attached instance \<open>'3'\<close> is written and driven, then \<open>'5'\<close> is
  written while the bulk GPIO write fails; \<open>digit_show\<close> then stores \<open>'5'\<close>.
\<close>

theorem show_after_fault_counterexample:
  "\<exists>s1 s2. digit_store env_ok ''3'' 1 attached = Some (1, s1) \<and>
      digit_store env_fault ''5'' 1 s1 = Some (1, s2) \<and>
      masks (calls s2) = [0x4F, 0x6D] \<and>
      reported (calls s2) = [''Error setting a value in GPIOS: %d''] \<and>
      digit_show s2 (\<lambda>i. CHR 0x00) = Some (0, (\<lambda>i. CHR 0x00)(0 := CHR ''5''), s2)"
  by (simp add: digit_store_def display7_setled_def digit_switch_def deref_def attached_def
      env_ok_def env_fault_def kcall_def segment_table_def IS_ERR_VALUE_def Let_def
      digit_show_def)

text \<open>
  Claim C7, amended. \<open>digit_show\<close> stores exactly one character at the start of the
  reader's page, returns no error code, and leaves the driver state (and so the pins)
  untouched. The character is the recorded digit: after a write it is the character that
  write recorded, whether or not the bulk GPIO write succeeded; after an attach that
  returned 0 and before any write it is the NUL character.
\<close>

theorem show_reads_recorded_digit:
  "(display7_data s = Some dat \<longrightarrow>
      (\<exists>n. digit_show s page = Some (n, page(0 := digit dat), s) \<and> 0 \<le> n)) \<and>
   (digit_store env buf sz s = Some (r, s') \<longrightarrow>
      (\<exists>n. digit_show s' page = Some (n, page(0 := fst (digit_switch (deref buf))), s') \<and>
           0 \<le> n)) \<and>
   (display7_probe kenv u = (0, u') \<longrightarrow>
      (\<exists>n. digit_show u' page = Some (n, page(0 := CHR 0x00), u') \<and> 0 \<le> n))"
proof (intro conjI impI)
  assume "display7_data s = Some dat"
  then show "\<exists>n. digit_show s page = Some (n, page(0 := digit dat), s) \<and> 0 \<le> n"
    by (simp add: digit_show_def)
next
  assume "digit_store env buf sz s = Some (r, s')"
  from digit_store_records [OF this]
  show "\<exists>n. digit_show s' page = Some (n, page(0 := fst (digit_switch (deref buf))), s') \<and>
           0 \<le> n"
    by (auto simp add: digit_show_def)
next
  assume "display7_probe kenv u = (0, u')"
  from probe_zero_digit [OF this]
  show "\<exists>n. digit_show u' page = Some (n, page(0 := CHR 0x00), u') \<and> 0 \<le> n"
    by (auto simp add: digit_show_def)
qed

theorem show_reads_recorded_digit_witness:
  "(\<exists>n. digit_show attached (\<lambda>i. CHR ''x'') =
           Some (n, (\<lambda>i. CHR ''x'')(0 := CHR 0x00), attached) \<and> 0 \<le> n) \<and>
   (\<exists>s'. digit_store env_fault ''b'' 1 attached = Some (1, s') \<and>
      (\<exists>n. digit_show s' (\<lambda>i. CHR ''x'') = Some (n, (\<lambda>i. CHR ''x'')(0 := CHR ''b''), s') \<and>
           0 \<le> n)) \<and>
   display7_probe env_ok unloaded = (0, attached)"
proof -
  obtain s' where st: "digit_store env_fault ''b'' 1 attached = Some (1, s')"
    by (simp add: digit_store_attached [OF attached_data])
  have sw: "fst (digit_switch (deref ''b'')) = CHR ''b''"
    by (simp add: digit_switch_def deref_def)
  from show_reads_recorded_digit
    [where s = attached and env = env_fault and buf = "''b''" and sz = 1 and r = 1
       and s' = s' and kenv = env_ok and u = unloaded and u' = attached
       and page = "\<lambda>i. CHR ''x''"
       and dat = "\<lparr>devnum = 240, digit = CHR 0x00, descs = Ptr \<lparr>ndescs = 8\<rparr>\<rparr>"]
    attached_data st probe_env_ok sw
  show ?thesis
    by simp
qed

subsection \<open>Attach\<close>

lemma ret_err_class_create_keeps:
  "held (ret_err_class_create s) = held s - {Chrdev_region} \<and>
   calls (ret_err_class_create s) = calls s @ [Unregister_chrdev_region]"
  by (simp add: ret_err_class_create_def release_def kcall_def)

lemma ret_err_create_device_keeps:
  "held (ret_err_create_device s) = held s - {Sys_class} - {Chrdev_region} \<and>
   calls (ret_err_create_device s) = calls s @ [Class_destroy, Unregister_chrdev_region]"
  by (simp add: ret_err_create_device_def ret_err_class_create_keeps release_def kcall_def)

lemma ret_err_create_device_subfile_keeps:
  "held (ret_err_create_device_subfile s) =
     held s - {Sys_device} - {Sys_class} - {Chrdev_region} \<and>
   calls (ret_err_create_device_subfile s) =
     calls s @ [Device_destroy, Class_destroy, Unregister_chrdev_region]"
  by (simp add: ret_err_create_device_subfile_def ret_err_create_device_keeps release_def
      kcall_def)

lemma probe_device_create_file_keeps:
  assumes "Gpio_array \<in> held s"
  shows "Gpio_array \<in> held (snd (probe_device_create_file env s)) \<and>
         (\<exists>new. calls (snd (probe_device_create_file env s)) = calls s @ new \<and>
                Gpiod_put_array \<notin> set new)"
  using assms
  by (simp add: probe_device_create_file_def ret_err_create_device_subfile_keeps
      kcall_def claim_def Let_def)

lemma probe_device_create_keeps:
  assumes "Gpio_array \<in> held s"
  shows "Gpio_array \<in> held (snd (probe_device_create env s)) \<and>
         (\<exists>new. calls (snd (probe_device_create env s)) = calls s @ new \<and>
                Gpiod_put_array \<notin> set new)"
proof (cases "IS_ERR (device_create_res env)")
  case (Some e)
  with assms show ?thesis
    by (simp add: probe_device_create_def ret_err_create_device_keeps kcall_def claim_def
        Let_def split: kptr.splits)
next
  case None
  let ?s2 = "case device_create_res env of
               Ptr x \<Rightarrow> claim Sys_device
                          ((kcall Device_create s)\<lparr>sysfs_display7_device := device_create_res env\<rparr>)
             | _ \<Rightarrow> (kcall Device_create s)\<lparr>sysfs_display7_device := device_create_res env\<rparr>"
  have run: "probe_device_create env s = probe_device_create_file env ?s2"
    using None by (simp add: probe_device_create_def Let_def)
  have h: "Gpio_array \<in> held ?s2" and c: "calls ?s2 = calls s @ [Device_create]"
    using assms by (simp_all add: kcall_def claim_def split: kptr.splits)
  from probe_device_create_file_keeps [OF h, of env] c show ?thesis
    by (auto simp add: run)
qed

lemma probe_class_create_keeps:
  assumes "Gpio_array \<in> held s"
  shows "Gpio_array \<in> held (snd (probe_class_create env s)) \<and>
         (\<exists>new. calls (snd (probe_class_create env s)) = calls s @ new \<and>
                Gpiod_put_array \<notin> set new)"
proof (cases "IS_ERR (class_create_res env)")
  case (Some e)
  with assms show ?thesis
    by (simp add: probe_class_create_def ret_err_class_create_keeps kcall_def claim_def
        Let_def split: kptr.splits)
next
  case None
  let ?s2 = "case class_create_res env of
               Ptr x \<Rightarrow> claim Sys_class
                          ((kcall Class_create s)\<lparr>display7_class := class_create_res env\<rparr>)
             | _ \<Rightarrow> (kcall Class_create s)\<lparr>display7_class := class_create_res env\<rparr>"
  have run: "probe_class_create env s = probe_device_create env ?s2"
    using None by (simp add: probe_class_create_def Let_def)
  have h: "Gpio_array \<in> held ?s2" and c: "calls ?s2 = calls s @ [Class_create]"
    using assms by (simp_all add: kcall_def claim_def split: kptr.splits)
  from probe_device_create_keeps [OF h, of env] c show ?thesis
    by (auto simp add: run)
qed

lemma probe_alloc_chrdev_region_keeps:
  assumes "Gpio_array \<in> held s"
  shows "Gpio_array \<in> held (snd (probe_alloc_chrdev_region env dat s)) \<and>
         (\<exists>new. calls (snd (probe_alloc_chrdev_region env dat s)) = calls s @ new \<and>
                Gpiod_put_array \<notin> set new)"
proof (cases "alloc_chrdev_region_res env = 0")
  case False
  with assms show ?thesis
    by (simp add: probe_alloc_chrdev_region_def kcall_def Let_def)
next
  case True
  let ?s2 = "claim Chrdev_region
               ((kcall Alloc_chrdev_region s)
                  \<lparr>display7_data := Some (dat\<lparr>devnum := alloc_devnum env\<rparr>)\<rparr>)"
  have run: "probe_alloc_chrdev_region env dat s = probe_class_create env ?s2"
    using True by (simp add: probe_alloc_chrdev_region_def Let_def)
  have h: "Gpio_array \<in> held ?s2" and c: "calls ?s2 = calls s @ [Alloc_chrdev_region]"
    using assms by (simp_all add: kcall_def claim_def)
  from probe_class_create_keeps [OF h, of env] c show ?thesis
    by (auto simp add: run)
qed

text \<open>
  Claim C8. Once \<open>gpiod_get_array\<close> has handed out the pins, no path through
  \<open>display7_probe\<close> gives them back: whatever the later kernel calls answer, the pins are
  still held when it returns and \<open>gpiod_put_array\<close> has not been called. With a failing
  \<open>device_create_file\<close> the attach returns \<open>-ENOMEM\<close>, the device, the class and the
  device number are released, and the pins stay claimed.
\<close>

theorem probe_failure_keeps_pins:
  assumes "kzalloc_ok env" and "gpiod_get_array_res env = Ptr g"
  shows "Gpio_array \<in> held (snd (display7_probe env s)) \<and>
         Gpiod_put_array \<notin> set (drop (length (calls s)) (calls (snd (display7_probe env s))))"
proof -
  let ?dat = "\<lparr>devnum = 0, digit = CHR 0x00, descs = Ptr g\<rparr>"
  let ?s3 = "claim Gpio_array
               ((kcall Gpiod_get_array (kcall Devm_kzalloc s))\<lparr>display7_data := Some ?dat\<rparr>)"
  have run: "display7_probe env s = probe_alloc_chrdev_region env ?dat ?s3"
    using assms by (simp add: display7_probe_def Let_def)
  have h: "Gpio_array \<in> held ?s3"
    and c: "calls ?s3 = calls s @ [Devm_kzalloc, Gpiod_get_array]"
    by (simp_all add: kcall_def claim_def)
  from probe_alloc_chrdev_region_keeps [OF h, of env ?dat] c show ?thesis
    by (auto simp add: run)
qed

lemma probe_env_nofile:
  "display7_probe env_nofile unloaded =
     (- 12,
      \<lparr>display7_data = Some \<lparr>devnum = 240, digit = CHR 0x00, descs = Ptr \<lparr>ndescs = 8\<rparr>\<rparr>,
       display7_class = Ptr (), sysfs_display7_device = Ptr (),
       calls = [Devm_kzalloc, Gpiod_get_array, Alloc_chrdev_region, Class_create,
                Device_create, Device_create_file,
                Dev_err ''Failed to create a device sub-file!'',
                Device_destroy, Class_destroy, Unregister_chrdev_region],
       held = {Gpio_array}\<rparr>)"
  by (simp add: display7_probe_def probe_alloc_chrdev_region_def probe_class_create_def
      probe_device_create_def probe_device_create_file_def ret_err_class_create_def
      ret_err_create_device_def ret_err_create_device_subfile_def
      kcall_def claim_def release_def Let_def env_nofile_def env_ok_def unloaded_def
      IS_ERR_VALUE_def)

theorem probe_failure_keeps_pins_witness:
  "fst (display7_probe env_nofile unloaded) = - 12 \<and>
   Gpio_array \<in> held (snd (display7_probe env_nofile unloaded)) \<and>
   Gpiod_put_array \<notin> set (calls (snd (display7_probe env_nofile unloaded)))"
proof -
  have k: "kzalloc_ok env_nofile"
    and g: "gpiod_get_array_res env_nofile = Ptr \<lparr>ndescs = 8\<rparr>"
    by (simp_all add: env_nofile_def env_ok_def)
  from probe_failure_keeps_pins [OF k g, of unloaded] show ?thesis
    by (simp add: probe_env_nofile)
qed

subsection \<open>Detach\<close>

text \<open>
  Claim C9. On an instance whose data is allocated, \<open>display7_remove\<close> returns 0 after
  exactly these kernel calls, in this order: the attribute file is removed, the device is
  destroyed, the class is destroyed, the device number is unregistered, and only then the
  pins are released; the release of the pins is the last release.
\<close>

theorem remove_order:
  assumes "display7_data s = Some dat"
  shows "\<exists>s'. display7_remove s = Some (0, s') \<and>
           calls s' = calls s @
             [Device_remove_file, Device_destroy, Class_destroy, Unregister_chrdev_region,
              Gpiod_put_array, Dev_info ''Driver unloaded!''] \<and>
           before Device_remove_file Gpiod_put_array (drop (length (calls s)) (calls s')) \<and>
           before Device_destroy Gpiod_put_array (drop (length (calls s)) (calls s')) \<and>
           last (filter is_release (drop (length (calls s)) (calls s'))) = Gpiod_put_array \<and>
           held s' = held s - {Attr_file, Sys_device, Sys_class, Chrdev_region, Gpio_array}"
proof -
  let ?new = "[Device_remove_file, Device_destroy, Class_destroy, Unregister_chrdev_region,
              Gpiod_put_array, Dev_info ''Driver unloaded!'']"
  let ?h = "held s - {Attr_file} - {Sys_device} - {Sys_class} - {Chrdev_region} - {Gpio_array}"
  let ?s' = "s\<lparr>calls := calls s @ ?new, held := ?h\<rparr>"
  have run: "display7_remove s = Some (0, ?s')"
    using assms by (simp add: display7_remove_def kcall_def release_def Let_def)
  have b1: "before Device_remove_file Gpiod_put_array ?new"
    by (simp add: before_def)
  have b2: "before Device_destroy Gpiod_put_array ?new"
    by (simp add: before_def)
  have l: "last (filter is_release ?new) = Gpiod_put_array"
    by simp
  have h: "?h = held s - {Attr_file, Sys_device, Sys_class, Chrdev_region, Gpio_array}"
    by blast
  show ?thesis
  proof (intro exI conjI)
    show "display7_remove s = Some (0, ?s')" by (rule run)
    show "calls ?s' = calls s @ ?new" by simp
    show "before Device_remove_file Gpiod_put_array (drop (length (calls s)) (calls ?s'))"
      using b1 by simp
    show "before Device_destroy Gpiod_put_array (drop (length (calls s)) (calls ?s'))"
      using b2 by simp
    show "last (filter is_release (drop (length (calls s)) (calls ?s'))) = Gpiod_put_array"
      using l by simp
    show "held ?s' = held s - {Attr_file, Sys_device, Sys_class, Chrdev_region, Gpio_array}"
      using h by simp
  qed
qed

theorem remove_order_witness:
  "\<exists>s'. display7_remove attached = Some (0, s') \<and>
           drop 7 (calls s') =
             [Device_remove_file, Device_destroy, Class_destroy, Unregister_chrdev_region,
              Gpiod_put_array, Dev_info ''Driver unloaded!''] \<and>
           held s' = {}"
proof -
  have "display7_data attached = Some \<lparr>devnum = 240, digit = CHR 0x00, descs = Ptr \<lparr>ndescs = 8\<rparr>\<rparr>"
    by (simp add: attached_def)
  from remove_order [OF this] obtain s' where
    "display7_remove attached = Some (0, s')"
    "calls s' = calls attached @
             [Device_remove_file, Device_destroy, Class_destroy, Unregister_chrdev_region,
              Gpiod_put_array, Dev_info ''Driver unloaded!'']"
    "held s' = held attached - {Attr_file, Sys_device, Sys_class, Chrdev_region, Gpio_array}"
    by blast
  then show ?thesis
    by (simp add: attached_def)
qed

end
